theory Spec2Isabelle
  imports Complex_Main
begin

section \<open>Player-mention extraction and rule-based sentiment scoring\<close>

text \<open>
  A shallow embedding of \<^verbatim>\<open>sentiment_analysis.py\<close>.

  Modelling conventions.
  \<^item> Python \<^verbatim>\<open>str\<close> values are \<open>string\<close>s restricted to ASCII text: the
    case mappings, the whitespace class and the word class below are the ASCII ones, and
    a character outside them is treated as an uncased symbol.
  \<^item> Python \<^verbatim>\<open>float\<close> values are exact rationals (\<open>rat\<close>): the decimal
    literals \<^verbatim>\<open>0.001\<close>, \<^verbatim>\<open>0.2\<close>, \<^verbatim>\<open>0.3\<close>, \<^verbatim>\<open>0.4\<close>,
    \<^verbatim>\<open>0.1\<close>, \<^verbatim>\<open>0.9\<close> denote the decimal fractions they are written as,
    and no rounding happens.
  \<^item> A \<^verbatim>\<open>dict\<close> whose iteration order the code relies on is an association
    list in insertion order.
\<close>

subsection \<open>Strings\<close>

definition ascii_uppercase :: string where
  "ascii_uppercase = ''ABCDEFGHIJKLMNOPQRSTUVWXYZ''"

definition ascii_lowercase :: string where
  "ascii_lowercase = ''abcdefghijklmnopqrstuvwxyz''"

definition lower_char :: "char \<Rightarrow> char" where
  "lower_char c = (case map_of (zip ascii_uppercase ascii_lowercase) c of
                     None \<Rightarrow> c | Some d \<Rightarrow> d)"

definition upper_char :: "char \<Rightarrow> char" where
  "upper_char c = (case map_of (zip ascii_lowercase ascii_uppercase) c of
                     None \<Rightarrow> c | Some d \<Rightarrow> d)"

text \<open>\<^verbatim>\<open>s.lower()\<close>\<close>

definition lower :: "string \<Rightarrow> string" where
  "lower s = map lower_char s"

text \<open>\<^verbatim>\<open>s.startswith(p)\<close>\<close>

fun startswith :: "string \<Rightarrow> string \<Rightarrow> bool" where
  "startswith s [] = True"
| "startswith [] (p # ps) = False"
| "startswith (c # cs) (p # ps) = (c = p \<and> startswith cs ps)"

text \<open>\<^verbatim>\<open>p in s\<close> on strings: \<open>p\<close> occurs in \<open>s\<close> as a contiguous substring.\<close>

fun contains :: "string \<Rightarrow> string \<Rightarrow> bool" where
  "contains p [] = (p = [])"
| "contains p (c # cs) = (startswith (c # cs) p \<or> contains p cs)"

subsection \<open>Indicator vocabulary\<close>

definition POSITIVE_INDICATORS :: "string list" where
  "POSITIVE_INDICATORS = [
    ''played great'', ''played well'', ''excellent'', ''fantastic'', ''amazing'',
    ''incredible'', ''outstanding'', ''tremendous'', ''phenomenal'', ''brilliant'',
    ''stepped up'', ''came through'', ''delivered'', ''dominated'', ''took over'',
    ''earned'', ''deserves'', ''trust'', ''confident in'', ''believe in'',
    ''going to play'', ''more minutes'', ''expanded role'', ''starting'',
    ''love what he'', ''love his'', ''really like'', ''impressed'',
    ''improved'', ''getting better'', ''growing'', ''progressing'', ''developing'',
    ''matured'', ''evolved'', ''next level'', ''breakthrough'',
    ''leader'', ''vocal'', ''sets the tone'', ''brings energy'', ''competitor'',
    ''professional'', ''works hard'', ''first one in'', ''dedicated'',
    ''great defense'', ''shot well'', ''efficient'', ''smart plays'',
    ''controlled the game'', ''made winning plays'', ''clutch'']"

definition NEGATIVE_INDICATORS :: "string list" where
  "NEGATIVE_INDICATORS = [
    ''struggled'', ''had a tough'', ''didn't play well'', ''off night'',
    ''not his best'', ''needs to be better'', ''got to do more'',
    ''unacceptable'', ''disappointed'', ''frustrating'', ''concerning'',
    ''won't play'', ''less minutes'', ''coming off bench'', ''reduced role'',
    ''not ready'', ''not there yet'', ''needs work'', ''has to earn'',
    ''look at other options'', ''evaluate'', ''figure out'',
    ''focus'', ''concentration'', ''attention to detail'', ''discipline'',
    ''can't have'', ''not acceptable'', ''expect more'', ''demand more'',
    ''day to day'', ''questionable'', ''dealing with'', ''managing'',
    ''turnovers'', ''defensive lapses'', ''shot selection'', ''forcing'',
    ''out of control'', ''decision making'', ''costly mistakes'']"

definition NEUTRAL_INDICATORS :: "string list" where
  "NEUTRAL_INDICATORS = [
    ''we'll see'', ''evaluate'', ''day by day'', ''game to game'',
    ''depends on'', ''matchup'', ''situation'', ''look at film'']"

subsection \<open>The rule-based scorer\<close>

text \<open>
  The loop \<^verbatim>\<open>for indicator in LIST: if indicator in context_lower: found.append(indicator)\<close>,
  with the list being built as the accumulator.
\<close>

fun collect_found :: "string list \<Rightarrow> string \<Rightarrow> string list \<Rightarrow> string list" where
  "collect_found [] context_lower found = found"
| "collect_found (indicator # rest) context_lower found =
     collect_found rest context_lower
       (if contains indicator context_lower then found @ [indicator] else found)"

text \<open>\<^verbatim>\<open>analyze_sentiment_rules(context)\<close> returns the tuple (score, label, confidence, indicators).\<close>

definition analyze_sentiment_rules :: "string \<Rightarrow> rat \<times> string \<times> rat \<times> string list" where
  "analyze_sentiment_rules context =
     (let context_lower = lower context;
          positive_found = collect_found POSITIVE_INDICATORS context_lower [];
          negative_found = collect_found NEGATIVE_INDICATORS context_lower [];
          neutral_found = collect_found NEUTRAL_INDICATORS context_lower [];
          pos_weight = length positive_found;
          neg_weight = length negative_found;
          total = of_nat pos_weight + of_nat neg_weight + 1 / 1000
      in if pos_weight = 0 \<and> neg_weight = 0
         then (0, ''neutral'', 3 / 10,
               if neutral_found = [] then [''no clear indicators''] else neutral_found)
         else
           (let score0 = (of_nat pos_weight - of_nat neg_weight) / total;
                score = max (- 1) (min 1 score0);
                label = (if score > 2 / 10 then ''positive''
                         else if score < - (2 / 10) then ''negative''
                         else ''neutral'');
                confidence = min (9 / 10) (4 / 10 + total * (1 / 10));
                indicators = positive_found @ negative_found
            in (score, label, confidence, indicators)))"

subsection \<open>More string operations\<close>

text \<open>
  The ASCII characters for which \<^verbatim>\<open>str.isspace()\<close> holds; \<^verbatim>\<open>split()\<close> and
  \<^verbatim>\<open>strip()\<close> without arguments act on them.
\<close>

definition whitespace :: string where
  "whitespace = [CHR 0x09, CHR 0x0A, CHR 0x0B, CHR 0x0C, CHR 0x0D,
                 CHR 0x1C, CHR 0x1D, CHR 0x1E, CHR 0x1F, CHR '' '']"

definition is_space :: "char \<Rightarrow> bool" where
  "is_space c = (c \<in> set whitespace)"

definition digits :: string where
  "digits = ''0123456789''"

text \<open>The class \<^verbatim>\<open>\w\<close> of the regular expressions, on ASCII.\<close>

definition is_word_char :: "char \<Rightarrow> bool" where
  "is_word_char c = (c \<in> set (ascii_lowercase @ ascii_uppercase @ digits @ ''_''))"

definition is_cased :: "char \<Rightarrow> bool" where
  "is_cased c = (c \<in> set (ascii_lowercase @ ascii_uppercase))"

text \<open>\<^verbatim>\<open>s.strip()\<close>\<close>

definition strip :: "string \<Rightarrow> string" where
  "strip s = rev (dropWhile is_space (rev (dropWhile is_space s)))"

text \<open>
  \<^verbatim>\<open>s.split()\<close>: the maximal runs of non-whitespace characters, with the token being
  read as first argument.
\<close>

fun split_tokens :: "string \<Rightarrow> string \<Rightarrow> string list" where
  "split_tokens cur [] = (if cur = [] then [] else [cur])"
| "split_tokens cur (c # cs) =
     (if is_space c
      then (if cur = [] then split_tokens [] cs else cur # split_tokens [] cs)
      else split_tokens (cur @ [c]) cs)"

definition split_whitespace :: "string \<Rightarrow> string list" where
  "split_whitespace s = split_tokens [] s"

text \<open>\<^verbatim>\<open>s.endswith(p)\<close>\<close>

definition endswith :: "string \<Rightarrow> string \<Rightarrow> bool" where
  "endswith s p = (length p \<le> length s \<and> drop (length s - length p) s = p)"

text \<open>
  \<^verbatim>\<open>s.title()\<close>: a cased character is upper-cased when the character in front of it is not
  cased, and lower-cased otherwise.
\<close>

fun title_from :: "bool \<Rightarrow> string \<Rightarrow> string" where
  "title_from previous_is_cased [] = []"
| "title_from previous_is_cased (c # cs) =
     (if previous_is_cased then lower_char c else upper_char c) # title_from (is_cased c) cs"

definition title :: "string \<Rightarrow> string" where
  "title s = title_from False s"

text \<open>
  \<^verbatim>\<open>re.split(r'[.!?]+', s)\<close>: the pieces between maximal runs of the three
  terminators; a run at either end of the text leaves an empty piece there. The flag says
  that the last character read was a terminator, the second argument is the piece being read.
\<close>

definition is_terminator :: "char \<Rightarrow> bool" where
  "is_terminator c = (c = CHR ''.'' \<or> c = CHR ''!'' \<or> c = CHR ''?'')"

fun re_split_from :: "bool \<Rightarrow> string \<Rightarrow> string \<Rightarrow> string list" where
  "re_split_from in_run cur [] = [cur]"
| "re_split_from in_run cur (c # cs) =
     (if is_terminator c
      then (if in_run then re_split_from True cur cs else cur # re_split_from True [] cs)
      else re_split_from False (cur @ [c]) cs)"

definition re_split_sentences :: "string \<Rightarrow> string list" where
  "re_split_sentences s = re_split_from False [] s"

text \<open>
  \<^verbatim>\<open>re.finditer(r'\b' + re.escape(name) + r'\b', text)\<close>, as the list of the start
  offsets of the matches. \<open>\b\<close> holds between two positions when exactly one of the
  neighbouring characters is a word character (the ends of the text count as non-word).
  The scan goes left to right; after a match the next one starts at its end at the
  earliest (\<open>skip\<close> counts the characters still covered by the last match).
\<close>

definition is_word :: "char option \<Rightarrow> bool" where
  "is_word x = (case x of None \<Rightarrow> False | Some c \<Rightarrow> is_word_char c)"

definition word_boundary :: "char option \<Rightarrow> char option \<Rightarrow> bool" where
  "word_boundary prev next = (is_word prev \<noteq> is_word next)"

definition head :: "string \<Rightarrow> char option" where
  "head s = (case s of [] \<Rightarrow> None | c # _ \<Rightarrow> Some c)"

definition match_here :: "string \<Rightarrow> char option \<Rightarrow> string \<Rightarrow> bool" where
  "match_here name prev rest =
     (startswith rest name
      \<and> word_boundary prev (head rest)
      \<and> word_boundary (if name = [] then prev else Some (last name))
                       (head (drop (length name) rest)))"

fun finditer_from :: "string \<Rightarrow> nat \<Rightarrow> nat \<Rightarrow> char option \<Rightarrow> string \<Rightarrow> nat list" where
  "finditer_from name pos skip prev [] =
     (if skip = 0 \<and> match_here name prev [] then [pos] else [])"
| "finditer_from name pos skip prev (c # cs) =
     (if skip = 0 \<and> match_here name prev (c # cs)
      then pos # finditer_from name (pos + 1) (length name - 1) (Some c) cs
      else finditer_from name (pos + 1) (skip - 1) (Some c) cs)"

definition finditer_word :: "string \<Rightarrow> string \<Rightarrow> nat list" where
  "finditer_word name text = finditer_from name 0 0 None text"

subsection \<open>Roster index\<close>

text \<open>
  A \<^verbatim>\<open>dict\<close> in insertion order: assigning to a key that is present keeps its place,
  assigning to a new key appends it.
\<close>

type_synonym ('k, 'v) dict = "('k \<times> 'v) list"

definition dict_get :: "('k, 'v) dict \<Rightarrow> 'k \<Rightarrow> 'v option" where
  "dict_get d k = map_of d k"

fun dict_set :: "('k, 'v) dict \<Rightarrow> 'k \<Rightarrow> 'v \<Rightarrow> ('k, 'v) dict" where
  "dict_set [] k v = [(k, v)]"
| "dict_set ((k', v') # d) k v =
     (if k' = k then (k, v) # d else (k', v') # dict_set d k v)"

definition NBA_ROSTERS :: "(string, string list) dict" where
  "NBA_ROSTERS = [
    (''Boston Celtics'', [
        ''Jayson Tatum'', ''Jaylen Brown'', ''Derrick White'', ''Jrue Holiday'',
        ''Kristaps Porzingis'', ''Al Horford'', ''Payton Pritchard'', ''Sam Hauser'']),
    (''Los Angeles Lakers'', [
        ''LeBron James'', ''Anthony Davis'', ''Austin Reaves'', ''D'Angelo Russell'',
        ''Rui Hachimura'', ''Gabe Vincent'', ''Jarred Vanderbilt'', ''Max Christie'']),
    (''Golden State Warriors'', [
        ''Stephen Curry'', ''Draymond Green'', ''Andrew Wiggins'', ''Klay Thompson'',
        ''Jonathan Kuminga'', ''Kevon Looney'', ''Chris Paul'', ''Brandin Podziemski'']),
    (''Denver Nuggets'', [
        ''Nikola Jokic'', ''Jamal Murray'', ''Michael Porter Jr'', ''Aaron Gordon'',
        ''Kentavious Caldwell-Pope'', ''Reggie Jackson'', ''Christian Braun'']),
    (''Milwaukee Bucks'', [
        ''Giannis Antetokounmpo'', ''Damian Lillard'', ''Khris Middleton'',
        ''Brook Lopez'', ''Bobby Portis'', ''Malik Beasley'', ''Pat Connaughton'']),
    (''Phoenix Suns'', [
        ''Kevin Durant'', ''Devin Booker'', ''Bradley Beal'', ''Jusuf Nurkic'',
        ''Grayson Allen'', ''Eric Gordon'', ''Royce O'Neale'']),
    (''Philadelphia 76ers'', [
        ''Joel Embiid'', ''Tyrese Maxey'', ''Paul George'', ''Kelly Oubre Jr'',
        ''Tobias Harris'', ''De'Anthony Melton'', ''Nicolas Batum'']),
    (''Miami Heat'', [
        ''Jimmy Butler'', ''Bam Adebayo'', ''Tyler Herro'', ''Terry Rozier'',
        ''Jaime Jaquez Jr'', ''Duncan Robinson'', ''Caleb Martin'']),
    (''Dallas Mavericks'', [
        ''Luka Doncic'', ''Kyrie Irving'', ''Daniel Gafford'', ''Dereck Lively II'',
        ''Tim Hardaway Jr'', ''Josh Green'', ''Maxi Kleber'']),
    (''New York Knicks'', [
        ''Jalen Brunson'', ''Julius Randle'', ''OG Anunoby'', ''Donte DiVincenzo'',
        ''Josh Hart'', ''Mitchell Robinson'', ''Isaiah Hartenstein''])]"

datatype error = IndexError

text \<open>
  \<^verbatim>\<open>player.split()[-1].lower()\<close>; the subscript raises \<^verbatim>\<open>IndexError\<close> on a
  name without a token.
\<close>

definition last_name_of :: "string \<Rightarrow> error + string" where
  "last_name_of player =
     (case split_whitespace player of
        [] \<Rightarrow> Inl IndexError
      | t # ts \<Rightarrow> Inr (lower (last (t # ts))))"

text \<open>The body of the inner loop that fills \<^verbatim>\<open>PLAYER_TO_TEAM\<close>, for one player.\<close>

definition register_player :: "string \<Rightarrow> (string, string) dict \<Rightarrow> string
    \<Rightarrow> error + (string, string) dict" where
  "register_player team d player =
     (let d1 = dict_set d (lower player) team
      in case last_name_of player of
           Inl e \<Rightarrow> Inl e
         | Inr last_name \<Rightarrow>
             Inr (if dict_get d1 last_name = None then dict_set d1 last_name team else d1))"

fun register_players :: "string \<Rightarrow> (string, string) dict \<Rightarrow> string list
    \<Rightarrow> error + (string, string) dict" where
  "register_players team d [] = Inr d"
| "register_players team d (player # players) =
     (case register_player team d player of
        Inl e \<Rightarrow> Inl e
      | Inr d' \<Rightarrow> register_players team d' players)"

fun register_rosters :: "(string, string) dict \<Rightarrow> (string, string list) dict
    \<Rightarrow> error + (string, string) dict" where
  "register_rosters d [] = Inr d"
| "register_rosters d ((team, players) # rosters) =
     (case register_players team d players of
        Inl e \<Rightarrow> Inl e
      | Inr d' \<Rightarrow> register_rosters d' rosters)"

text \<open>
  The reverse lookup built at module level from a roster table, and the one the module
  builds from its own table.
\<close>

definition build_player_to_team :: "(string, string list) dict
    \<Rightarrow> error + (string, string) dict" where
  "build_player_to_team rosters = register_rosters [] rosters"

definition PLAYER_TO_TEAM :: "error + (string, string) dict" where
  "PLAYER_TO_TEAM = build_player_to_team NBA_ROSTERS"

subsection \<open>Mention extraction\<close>

text \<open>
  \<^verbatim>\<open>extract_player_mentions\<close> reads the module-level \<^verbatim>\<open>PLAYER_TO_TEAM\<close>; here
  the index is an argument, so that the function can be stated for every index. Its
  parameter \<^verbatim>\<open>coach_team\<close> is never read and is left out.
\<close>

text \<open>
  The dictionary appended for a match, with its keys \<^verbatim>\<open>player_name\<close>,
  \<^verbatim>\<open>team\<close>, \<^verbatim>\<open>context\<close> and \<^verbatim>\<open>position\<close>.
\<close>

record mention =
  mention_player_name :: string
  mention_team :: string
  mention_context :: string
  mention_position :: nat

text \<open>
  The loop that finds the sentence of a match: the running count adds the length of each
  piece plus one, and the first piece whose count exceeds the offset is taken, stripped.
  No piece gives the empty context.
\<close>

fun find_sentence :: "string list \<Rightarrow> nat \<Rightarrow> nat \<Rightarrow> string" where
  "find_sentence [] char_count start_pos = []"
| "find_sentence (sentence # rest) char_count start_pos =
     (if char_count + (length sentence + 1) > start_pos
      then strip sentence
      else find_sentence rest (char_count + (length sentence + 1)) start_pos)"

text \<open>\<^verbatim>\<open>xs.index(x)\<close> for an \<open>x\<close> that occurs in \<open>xs\<close>: the first position.\<close>

fun index_of :: "'a list \<Rightarrow> 'a \<Rightarrow> nat" where
  "index_of [] x = 0"
| "index_of (y # ys) x = (if y = x then 0 else Suc (index_of ys x))"

text \<open>
  The expansion of a short context. \<open>sent_idx\<close> is an integer: \<open>-1\<close> stands for
  "not among the pieces", and the two tests read it as the source does. Both subscripts
  are in range whenever their test holds.
\<close>

definition expand_context :: "string list \<Rightarrow> string \<Rightarrow> string" where
  "expand_context sentences ctx =
     (if length ctx < 100
      then
        (let sent_idx = (if ctx \<in> set sentences then int (index_of sentences ctx) else - 1);
             ctx1 = (if sent_idx > 0
                     then strip (sentences ! nat (sent_idx - 1)) @ ''. '' @ ctx
                     else ctx);
             ctx2 = (if sent_idx < int (length sentences) - 1
                     then ctx1 @ ''. '' @ strip (sentences ! nat (sent_idx + 1))
                     else ctx1)
         in ctx2)
      else ctx)"

text \<open>
  The search for the full name: the first entry of the index, in its order, that has the
  same team, ends with the matched name and is longer; the matched name when there is
  none.
\<close>

fun full_name_of :: "(string, string) dict \<Rightarrow> string \<Rightarrow> string \<Rightarrow> string" where
  "full_name_of [] name tm = name"
| "full_name_of ((full, t) # rest) name tm =
     (if t = tm \<and> endswith full name \<and> length full > length name
      then full
      else full_name_of rest name tm)"

text \<open>The mention appended for one match at \<open>start_pos\<close> of the entry \<open>(name, tm)\<close>.\<close>

definition mention_at :: "(string, string) dict \<Rightarrow> string list \<Rightarrow> string \<Rightarrow> string
    \<Rightarrow> nat \<Rightarrow> mention" where
  "mention_at idx sentences name tm start_pos =
     (let ctx = expand_context sentences (find_sentence sentences 0 start_pos);
          full_name = full_name_of idx name tm
      in \<lparr>mention_player_name = title full_name, mention_team = tm,
          mention_context = take 500 ctx, mention_position = start_pos\<rparr>)"

text \<open>The final loop: a mention is kept when its key has not been seen yet.\<close>

fun deduplicate :: "(string \<times> string) list \<Rightarrow> mention list \<Rightarrow> mention list" where
  "deduplicate seen [] = []"
| "deduplicate seen (m # ms) =
     (let key = (mention_player_name m, take 100 (mention_context m))
      in if key \<notin> set seen then m # deduplicate (key # seen) ms
         else deduplicate seen ms)"

definition extract_player_mentions :: "(string, string) dict \<Rightarrow> string \<Rightarrow> mention list" where
  "extract_player_mentions idx transcript =
     (let transcript_lower = lower transcript;
          sentences = re_split_sentences transcript;
          mentions = concat (map (\<lambda>(name, tm).
                         map (mention_at idx sentences name tm)
                             (finditer_word name transcript_lower)) idx)
      in deduplicate [] mentions)"

subsection \<open>Sentiment store\<close>

text \<open>
  The dataclass \<^verbatim>\<open>PlayerMention\<close>; its field \<^verbatim>\<open>context\<close> is
  \<open>context_text\<close> here.
\<close>

record PlayerMention =
  player_name :: string
  team :: string
  context_text :: string
  sentiment_score :: rat
  sentiment_label :: string
  confidence :: rat
  indicators :: "string list"
  video_id :: string
  coach_name :: string
  date :: string

text \<open>
  A row of the table \<^verbatim>\<open>player_sentiments\<close>: the generated \<^verbatim>\<open>id\<close>, the
  columns that come from the mention, and \<^verbatim>\<open>analyzed_at\<close>. The column
  \<^verbatim>\<open>indicators\<close> holds the list itself rather than its JSON text. The table is
  the list of its rows in the order of their ids, with the last id handed out.
\<close>

record sentiment_row =
  row_id :: nat
  stored :: PlayerMention
  analyzed_at :: string

record database =
  player_sentiments :: "sentiment_row list"
  last_id :: nat

text \<open>The columns of \<^verbatim>\<open>UNIQUE(video_id, player_name, context)\<close>.\<close>

definition unique_key :: "PlayerMention \<Rightarrow> string \<times> string \<times> string" where
  "unique_key m = (video_id m, player_name m, context_text m)"

text \<open>
  \<^verbatim>\<open>INSERT OR REPLACE INTO player_sentiments ... VALUES ...\<close>: the rows that
  conflict with the new one on the unique columns are deleted, then the new row is
  inserted under a fresh id. The statement raises no \<^verbatim>\<open>IntegrityError\<close>, so the
  handler around it never runs.
\<close>

definition insert_or_replace :: "database \<Rightarrow> PlayerMention \<Rightarrow> string \<Rightarrow> database" where
  "insert_or_replace db m now =
     (let kept = filter (\<lambda>r. unique_key (stored r) \<noteq> unique_key m) (player_sentiments db);
          new_id = last_id db + 1
      in \<lparr>player_sentiments = kept @ [\<lparr>row_id = new_id, stored = m, analyzed_at = now\<rparr>],
          last_id = new_id\<rparr>)"

text \<open>
  \<^verbatim>\<open>save_sentiment_results(mentions)\<close>. The clock is read once for each mention:
  \<open>utcnow 0\<close> is the reading for the first one, \<open>utcnow 1\<close> for the second, and so on.
\<close>

fun save_sentiment_results :: "(nat \<Rightarrow> string) \<Rightarrow> database \<Rightarrow> PlayerMention list
    \<Rightarrow> database" where
  "save_sentiment_results utcnow db [] = db"
| "save_sentiment_results utcnow db (m # ms) =
     save_sentiment_results (\<lambda>i. utcnow (Suc i)) (insert_or_replace db m (utcnow 0)) ms"

subsection \<open>Trends\<close>

text \<open>Text comparison of the store: by character codes, a proper prefix first.\<close>

fun text_le :: "string \<Rightarrow> string \<Rightarrow> bool" where
  "text_le [] t = True"
| "text_le (a # as) [] = False"
| "text_le (a # as) (b # bs) =
     ((of_char a :: nat) < of_char b \<or> (a = b \<and> text_le as bs))"

text \<open>
  \<^verbatim>\<open>ORDER BY date DESC\<close>, as an insertion sort. Rows of the same date stay in the
  order of the table; SQL leaves their order open.
\<close>

fun insert_by_date :: "sentiment_row \<Rightarrow> sentiment_row list \<Rightarrow> sentiment_row list" where
  "insert_by_date r [] = [r]"
| "insert_by_date r (x # xs) =
     (if text_le (date (stored x)) (date (stored r)) then r # x # xs
      else x # insert_by_date r xs)"

definition order_by_date_desc :: "sentiment_row list \<Rightarrow> sentiment_row list" where
  "order_by_date_desc rs = foldr insert_by_date rs []"








subsection \<open>Notions used to state the properties of the roster index\<close>



section \<open>Properties of the rule-based scorer\<close>

subsection \<open>Substring test and the collecting loop\<close>

lemma startswith_iff: "startswith s p \<longleftrightarrow> (\<exists>suf. s = p @ suf)"
  by (induction s p rule: startswith.induct) auto

lemma contains_iff: "contains p s \<longleftrightarrow> (\<exists>pre suf. s = pre @ p @ suf)"
proof (induction s)
  case Nil
  then show ?case by auto
next
  case (Cons c cs)
  show ?case
  proof
    assume "contains p (c # cs)"
    then consider "startswith (c # cs) p" | "contains p cs" by auto
    then show "\<exists>pre suf. c # cs = pre @ p @ suf"
    proof cases
      case 1
      then obtain suf where "c # cs = p @ suf" by (auto simp: startswith_iff)
      then have "c # cs = [] @ p @ suf" by simp
      then show ?thesis by blast
    next
      case 2
      with Cons obtain pre suf where "cs = pre @ p @ suf" by auto
      then have "c # cs = (c # pre) @ p @ suf" by simp
      then show ?thesis by blast
    qed
  next
    assume "\<exists>pre suf. c # cs = pre @ p @ suf"
    then obtain pre suf where e: "c # cs = pre @ p @ suf" by auto
    show "contains p (c # cs)"
    proof (cases pre)
      case Nil
      with e have "startswith (c # cs) p" by (auto simp: startswith_iff)
      then show ?thesis by simp
    next
      case (Cons a pre')
      with e have "cs = pre' @ p @ suf" by simp
      with Cons.IH have "contains p cs" by blast
      then show ?thesis by simp
    qed
  qed
qed

lemma collect_found_filter:
  "collect_found inds s found = found @ filter (\<lambda>p. contains p s) inds"
  by (induction inds arbitrary: found) auto

lemma analyze_sentiment_rules_unfold:
  "analyze_sentiment_rules context =
     (let pos = filter (\<lambda>p. contains p (lower context)) POSITIVE_INDICATORS;
          neg = filter (\<lambda>p. contains p (lower context)) NEGATIVE_INDICATORS;
          neu = filter (\<lambda>p. contains p (lower context)) NEUTRAL_INDICATORS;
          total = of_nat (length pos) + of_nat (length neg) + 1 / 1000
      in if pos = [] \<and> neg = []
         then (0, ''neutral'', 3 / 10, if neu = [] then [''no clear indicators''] else neu)
         else (let score = max (- 1) (min 1 ((of_nat (length pos) - of_nat (length neg)) / total))
               in (score,
                   if score > 2 / 10 then ''positive''
                   else if score < - (2 / 10) then ''negative'' else ''neutral'',
                   min (9 / 10) (4 / 10 + total * (1 / 10)),
                   pos @ neg)))"
  by (simp only: analyze_sentiment_rules_def collect_found_filter Let_def append_Nil length_0_conv)

lemma analyze_sentiment_rules_zero:
  assumes "filter (\<lambda>p. contains p (lower ctx)) POSITIVE_INDICATORS = []"
      and "filter (\<lambda>p. contains p (lower ctx)) NEGATIVE_INDICATORS = []"
  shows "analyze_sentiment_rules ctx =
           (0, ''neutral'', 3 / 10,
            if filter (\<lambda>p. contains p (lower ctx)) NEUTRAL_INDICATORS = []
            then [''no clear indicators'']
            else filter (\<lambda>p. contains p (lower ctx)) NEUTRAL_INDICATORS)"
  unfolding analyze_sentiment_rules_unfold Let_def assms
  by (simp only: simp_thms if_True)

lemma analyze_sentiment_rules_matched:
  fixes ctx :: string
  defines "pos \<equiv> filter (\<lambda>p. contains p (lower ctx)) POSITIVE_INDICATORS"
      and "neg \<equiv> filter (\<lambda>p. contains p (lower ctx)) NEGATIVE_INDICATORS"
  defines "tot \<equiv> (of_nat (length pos) + of_nat (length neg) + 1 / 1000 :: rat)"
  defines "score \<equiv> max (- 1) (min 1 ((of_nat (length pos) - of_nat (length neg)) / tot))"
  assumes "\<not> (pos = [] \<and> neg = [])"
  shows "analyze_sentiment_rules ctx =
           (score,
            if score > 2 / 10 then ''positive''
            else if score < - (2 / 10) then ''negative'' else ''neutral'',
            min (9 / 10) (4 / 10 + tot * (1 / 10)),
            pos @ neg)"
  unfolding analyze_sentiment_rules_unfold Let_def
  unfolding pos_def[symmetric] neg_def[symmetric]
  unfolding tot_def[symmetric]
  unfolding score_def[symmetric]
  using assms(5) by (simp only: if_False)

lemma clamp_bounds: "- 1 \<le> max (- 1) (min 1 (x::rat)) \<and> max (- 1) (min 1 x) \<le> 1"
  by simp

lemma confidence_formula_bounds:
  fixes n :: rat
  assumes "1 \<le> n"
  shows "1 / 2 \<le> min (9 / 10) (4 / 10 + (n + 1 / 1000) * (1 / 10))"
    and "min (9 / 10) (4 / 10 + (n + 1 / 1000) * (1 / 10)) \<le> 9 / 10"
proof -
  have "1 / 2 \<le> 4 / 10 + (n + 1 / 1000) * (1 / 10)" using assms by (simp add: field_simps)
  then show "1 / 2 \<le> min (9 / 10) (4 / 10 + (n + 1 / 1000) * (1 / 10))" by simp
  show "min (9 / 10) (4 / 10 + (n + 1 / 1000) * (1 / 10)) \<le> 9 / 10" by (rule min.cobounded1)
qed

subsection \<open>Scores on a match\<close>

text \<open>
  Claim C3. When the lower-cased context contains at least one positive or negative
  indicator phrase, the scorer returns the score
  \<open>(posCount - negCount) / (posCount + negCount + 0.001)\<close> clamped to \<open>[-1, 1]\<close>, the
  label decided by the thresholds \<open>0.2\<close> and \<open>-0.2\<close>, the confidence
  \<open>min 0.9 (0.4 + 0.1 * (posCount + negCount + 0.001))\<close>, and as indicators the matched
  positive phrases followed by the matched negative phrases, each in list order.
\<close>

theorem rules_score_on_match:
  fixes ctx :: string
  defines "pos \<equiv> filter (\<lambda>p. contains p (lower ctx)) POSITIVE_INDICATORS"
      and "neg \<equiv> filter (\<lambda>p. contains p (lower ctx)) NEGATIVE_INDICATORS"
  defines "posCount \<equiv> (of_nat (length pos) :: rat)"
      and "negCount \<equiv> (of_nat (length neg) :: rat)"
  defines "score \<equiv> max (- 1) (min 1 ((posCount - negCount) / (posCount + negCount + 1 / 1000)))"
  assumes "1 \<le> length pos + length neg"
  shows "analyze_sentiment_rules ctx =
           (score,
            if score > 2 / 10 then ''positive''
            else if score < - (2 / 10) then ''negative'' else ''neutral'',
            min (9 / 10) (4 / 10 + 1 / 10 * (posCount + negCount + 1 / 1000)),
            pos @ neg)"
proof -
  have ne: "\<not> (pos = [] \<and> neg = [])" using assms(6) by auto
  have comm: "(posCount + negCount + 1 / 1000) * (1 / 10) = 1 / 10 * (posCount + negCount + 1 / 1000)"
    by (rule mult.commute)
  show ?thesis
    unfolding analyze_sentiment_rules_unfold Let_def
    unfolding pos_def[symmetric] neg_def[symmetric]
    unfolding posCount_def[symmetric] negCount_def[symmetric]
    unfolding score_def[symmetric]
    using ne comm by (simp only: if_False)
qed

theorem rules_score_on_match_witness:
  "1 \<le> length (filter (\<lambda>p. contains p (lower ''He struggled with turnovers and was not ready.'')) POSITIVE_INDICATORS)
       + length (filter (\<lambda>p. contains p (lower ''He struggled with turnovers and was not ready.'')) NEGATIVE_INDICATORS)
   \<and> analyze_sentiment_rules ''He struggled with turnovers and was not ready.''
       = (- (3000 / 3001), ''negative'', 7001 / 10000, [''struggled'', ''not ready'', ''turnovers''])"
proof
  show h: "1 \<le> length (filter (\<lambda>p. contains p (lower ''He struggled with turnovers and was not ready.'')) POSITIVE_INDICATORS)
       + length (filter (\<lambda>p. contains p (lower ''He struggled with turnovers and was not ready.'')) NEGATIVE_INDICATORS)"
    by code_simp
  show "analyze_sentiment_rules ''He struggled with turnovers and was not ready.''
       = (- (3000 / 3001), ''negative'', 7001 / 10000, [''struggled'', ''not ready'', ''turnovers''])"
    unfolding rules_score_on_match [OF h] by code_simp
qed

subsection \<open>No positive and no negative match\<close>

text \<open>
  Claim C4. When the lower-cased context contains no positive and no negative indicator
  phrase, the scorer returns exactly score \<open>0\<close>, label \<open>neutral\<close>, confidence
  \<open>0.3\<close>, and as indicators the matched neutral phrases in list order, or the single
  phrase \<open>no clear indicators\<close> when no neutral phrase matched either.
\<close>

theorem rules_no_polar_match:
  assumes "\<forall>p \<in> set POSITIVE_INDICATORS \<union> set NEGATIVE_INDICATORS. \<not> contains p (lower ctx)"
  shows "analyze_sentiment_rules ctx =
           (0, ''neutral'', 3 / 10,
            if filter (\<lambda>p. contains p (lower ctx)) NEUTRAL_INDICATORS = []
            then [''no clear indicators'']
            else filter (\<lambda>p. contains p (lower ctx)) NEUTRAL_INDICATORS)"
proof -
  from assms have "filter (\<lambda>p. contains p (lower ctx)) POSITIVE_INDICATORS = []"
    and "filter (\<lambda>p. contains p (lower ctx)) NEGATIVE_INDICATORS = []"
    by (simp_all add: filter_empty_conv)
  then show ?thesis by (rule analyze_sentiment_rules_zero)
qed

theorem rules_no_polar_match_witness:
  "list_all (\<lambda>p. \<not> contains p (lower ''Matchup TBD'')) (POSITIVE_INDICATORS @ NEGATIVE_INDICATORS)
   \<and> analyze_sentiment_rules ''Matchup TBD'' = (0, ''neutral'', 3 / 10, [''matchup''])"
proof
  show l: "list_all (\<lambda>p. \<not> contains p (lower ''Matchup TBD''))
             (POSITIVE_INDICATORS @ NEGATIVE_INDICATORS)"
    by code_simp
  then have h: "\<forall>p \<in> set POSITIVE_INDICATORS \<union> set NEGATIVE_INDICATORS.
                  \<not> contains p (lower ''Matchup TBD'')"
    by (simp only: list_all_iff set_append)
  show "analyze_sentiment_rules ''Matchup TBD'' = (0, ''neutral'', 3 / 10, [''matchup''])"
    unfolding rules_no_polar_match [OF h] by code_simp
qed

subsection \<open>Bounds\<close>

text \<open>
  Claim C8. For every context the returned score lies in the closed interval
  \<open>[-1, 1]\<close>.
\<close>

theorem rules_score_bounded:
  "- 1 \<le> fst (analyze_sentiment_rules ctx) \<and> fst (analyze_sentiment_rules ctx) \<le> 1"
proof (cases "filter (\<lambda>p. contains p (lower ctx)) POSITIVE_INDICATORS = [] \<and>
              filter (\<lambda>p. contains p (lower ctx)) NEGATIVE_INDICATORS = []")
  case True
  then have "fst (analyze_sentiment_rules ctx) = 0"
    by (simp only: analyze_sentiment_rules_zero fst_conv)
  then show ?thesis by simp
next
  case False
  note eq = analyze_sentiment_rules_matched [OF False]
  show ?thesis unfolding eq fst_conv by (rule clamp_bounds)
qed

text \<open>
  Claim C9. For every context the returned confidence lies in \<open>[0.3, 0.9]\<close> and is
  never \<open>1\<close>: it is \<open>0.3\<close> when no positive or negative phrase matches, and
  otherwise \<open>min 0.9 (0.4 + 0.1 * (posCount + negCount + 0.001))\<close>, which is at least
  \<open>0.5\<close>.
\<close>

theorem rules_confidence_range:
  fixes ctx :: string
  defines "n \<equiv> length (filter (\<lambda>p. contains p (lower ctx)) POSITIVE_INDICATORS)
               + length (filter (\<lambda>p. contains p (lower ctx)) NEGATIVE_INDICATORS)"
  defines "conf \<equiv> fst (snd (snd (analyze_sentiment_rules ctx)))"
  shows "3 / 10 \<le> conf \<and> conf \<le> 9 / 10 \<and> conf \<noteq> 1
         \<and> conf = (if n = 0 then 3 / 10
                          else min (9 / 10) (4 / 10 + 1 / 10 * (of_nat n + 1 / 1000)))
         \<and> (1 \<le> n \<longrightarrow> 1 / 2 \<le> conf)"
proof (cases "n = 0")
  case True
  then have e: "filter (\<lambda>p. contains p (lower ctx)) POSITIVE_INDICATORS = [] \<and>
                filter (\<lambda>p. contains p (lower ctx)) NEGATIVE_INDICATORS = []"
    by (simp add: n_def)
  have "conf = 3 / 10"
    unfolding conf_def using e
    by (simp only: analyze_sentiment_rules_zero fst_conv snd_conv)
  with True show ?thesis by simp
next
  case False
  then have ne: "\<not> (filter (\<lambda>p. contains p (lower ctx)) POSITIVE_INDICATORS = [] \<and>
                filter (\<lambda>p. contains p (lower ctx)) NEGATIVE_INDICATORS = [])"
    by (auto simp: n_def)
  have c: "conf = min (9 / 10) (4 / 10 + (of_nat n + 1 / 1000) * (1 / 10))"
    unfolding conf_def n_def of_nat_add
    by (simp only: analyze_sentiment_rules_matched [OF ne] fst_conv snd_conv)
  from False have "(1::rat) \<le> of_nat n" by simp
  from confidence_formula_bounds[OF this] c
  have "1 / 2 \<le> conf" "conf \<le> 9 / 10" by simp_all
  with c False show ?thesis by (simp add: mult.commute)
qed

theorem rules_confidence_range_witness:
  "(1 \<le> length (filter (\<lambda>p. contains p (lower ''Clutch'')) POSITIVE_INDICATORS)
          + length (filter (\<lambda>p. contains p (lower ''Clutch'')) NEGATIVE_INDICATORS))
   \<and> 1 / 2 \<le> fst (snd (snd (analyze_sentiment_rules ''Clutch'')))
   \<and> fst (snd (snd (analyze_sentiment_rules ''Clutch''))) = 5001 / 10000"
proof -
  have h: "1 \<le> length (filter (\<lambda>p. contains p (lower ''Clutch'')) POSITIVE_INDICATORS)
          + length (filter (\<lambda>p. contains p (lower ''Clutch'')) NEGATIVE_INDICATORS)"
    by code_simp
  have v: "fst (snd (snd (analyze_sentiment_rules ''Clutch''))) = 5001 / 10000"
    by code_simp
  from rules_confidence_range [of "''Clutch''"] h v show ?thesis by blast
qed

text \<open>
  Claim C10. For every context the returned indicator list is non-empty: the positive and
  negative matches when there are any, else the neutral matches when there are any, else
  the single phrase \<open>no clear indicators\<close>.
\<close>

theorem rules_indicators_nonempty:
  fixes ctx :: string
  defines "pos \<equiv> filter (\<lambda>p. contains p (lower ctx)) POSITIVE_INDICATORS"
      and "neg \<equiv> filter (\<lambda>p. contains p (lower ctx)) NEGATIVE_INDICATORS"
      and "neu \<equiv> filter (\<lambda>p. contains p (lower ctx)) NEUTRAL_INDICATORS"
  defines "inds \<equiv> snd (snd (snd (analyze_sentiment_rules ctx)))"
  shows "inds \<noteq> []
         \<and> inds = (if pos @ neg \<noteq> [] then pos @ neg
                          else if neu \<noteq> [] then neu
                          else [''no clear indicators''])"
proof -
  have "inds = (if pos @ neg \<noteq> [] then pos @ neg
                          else if neu \<noteq> [] then neu
                          else [''no clear indicators''])"
    unfolding inds_def analyze_sentiment_rules_unfold Let_def
    unfolding pos_def[symmetric] neg_def[symmetric] neu_def[symmetric]
    by (cases "pos = [] \<and> neg = []") auto
  then show ?thesis by auto
qed

section \<open>Properties of the roster index\<close>





lemma register_player_succeeds:
  "split_whitespace p \<noteq> [] \<Longrightarrow> \<exists>d'. register_player tm d p = Inr d'"
  by (auto simp: register_player_def last_name_of_def Let_def split: list.splits)

lemma register_players_succeeds:
  "\<forall>p \<in> set ps. split_whitespace p \<noteq> [] \<Longrightarrow> \<exists>d'. register_players tm d ps = Inr d'"
proof (induction ps arbitrary: d)
  case Nil
  then show ?case by simp
next
  case (Cons p ps)
  then obtain d1 where "register_player tm d p = Inr d1"
    using register_player_succeeds [of p tm d] by auto
  with Cons show ?case by auto
qed

lemma build_player_to_team_succeeds:
  assumes "\<forall>(tm, ps) \<in> set rosters. \<forall>p \<in> set ps. split_whitespace p \<noteq> []"
  shows "\<exists>idx. build_player_to_team rosters = Inr idx"
proof -
  have "\<exists>d'. register_rosters d rosters = Inr d'" for d
    using assms
  proof (induction rosters arbitrary: d)
    case Nil
    then show ?case by simp
  next
    case (Cons r rosters)
    obtain tm ps where r: "r = (tm, ps)" by (cases r)
    with Cons.prems have "\<forall>p \<in> set ps. split_whitespace p \<noteq> []" by auto
    then obtain d1 where "register_players tm d ps = Inr d1"
      using register_players_succeeds by blast
    with Cons r show ?case by auto
  qed
  then show ?thesis by (simp add: build_player_to_team_def)
qed




section \<open>Properties of mention extraction\<close>





lemma expand_context_not_found:
  assumes "length ctx < 100" and "ctx \<notin> set sentences" and "sentences \<noteq> []"
  shows "expand_context sentences ctx = ctx @ ''. '' @ strip (sentences ! 0)"
proof -
  from assms(3) have "0 < length sentences" by simp
  then have "(- 1 :: int) < int (length sentences) - 1" by simp
  with assms(1,2) show ?thesis by (simp add: expand_context_def)
qed

lemma mention_context_bounded:
  "length (mention_context (mention_at idx sentences name tm start_pos)) \<le> 500"
  by (simp add: mention_at_def Let_def)

lemma deduplicate_subset: "set (deduplicate seen ms) \<subseteq> set ms"
  by (induction ms arbitrary: seen) (auto simp: Let_def)

lemma extract_player_mentions_bounded:
  assumes "m \<in> set (extract_player_mentions idx transcript)"
  shows "length (mention_context m) \<le> 500"
proof -
  from assms deduplicate_subset
  have "m \<in> set (concat (map (\<lambda>(name, tm).
                         map (mention_at idx (re_split_sentences transcript) name tm)
                             (finditer_word name (lower transcript))) idx))"
    unfolding extract_player_mentions_def Let_def by blast
  then obtain name tm start_pos
    where "m = mention_at idx (re_split_sentences transcript) name tm start_pos"
    by auto
  then show ?thesis by (simp add: mention_context_bounded)
qed

lemma second_sentence_context_any_index:
  "mention_context
     (mention_at idx (re_split_sentences ''Hello there. Tatum played great. Bye now'') name tm 13)
   = ''Tatum played great. Hello there''"
proof -
  have s: "re_split_sentences ''Hello there. Tatum played great. Bye now''
             = [''Hello there'', '' Tatum played great'', '' Bye now'']"
    by code_simp
  have c: "take 500 (expand_context [''Hello there'', '' Tatum played great'', '' Bye now'']
             (find_sentence [''Hello there'', '' Tatum played great'', '' Bye now''] 0 13))
             = ''Tatum played great. Hello there''"
    by code_simp
  show ?thesis unfolding mention_at_def Let_def s using c by simp
qed

text \<open>
  Claim C2, at a transcript where the code departs from it. The match of \<open>tatum\<close> lies
  in the second of three sentences. Its base context is the stripped sentence, which is
  not among the pieces of the split (the piece starts with a space), so the index is
  \<open>-1\<close>: nothing is prepended and the first sentence is appended, where the claim has
  the previous sentence prepended and the next one appended. The index is the one built
  from the first entry of the roster table; the context is the same under every index
  (\<open>second_sentence_context_any_index\<close>).
\<close>

theorem short_context_gets_first_sentence:
  "map_sum id (\<lambda>idx. extract_player_mentions idx ''Hello there. Tatum played great. Bye now'')
     (build_player_to_team (take 1 NBA_ROSTERS))
   = Inr [\<lparr>mention_player_name = ''Jayson Tatum'', mention_team = ''Boston Celtics'',
           mention_context = ''Tatum played great. Hello there'', mention_position = 13\<rparr>]"
  by code_simp

section \<open>Properties of the sentiment store\<close>

lemma insert_or_replace_rows_of_key:
  "filter (\<lambda>r. unique_key (stored r) = unique_key m)
          (player_sentiments (insert_or_replace db m now))
   = [\<lparr>row_id = last_id db + 1, stored = m, analyzed_at = now\<rparr>]"
  by (simp add: insert_or_replace_def Let_def filter_empty_conv)

lemma insert_or_replace_distinct_keys:
  assumes "distinct (map (\<lambda>r. unique_key (stored r)) (player_sentiments db))"
  shows "distinct (map (\<lambda>r. unique_key (stored r)) (player_sentiments (insert_or_replace db m now)))"
  using assms by (auto simp: insert_or_replace_def Let_def distinct_map_filter)

lemma save_sentiment_results_distinct_keys:
  assumes "distinct (map (\<lambda>r. unique_key (stored r)) (player_sentiments db))"
  shows "distinct (map (\<lambda>r. unique_key (stored r))
           (player_sentiments (save_sentiment_results utcnow db ms)))"
  using assms
  by (induction ms arbitrary: db utcnow) (simp_all add: insert_or_replace_distinct_keys)

text \<open>
  Claim C1, at a batch where the code departs from it. Saving the same one-mention batch
  a second time deletes the row written first and inserts a new one: the table still has
  one row for the key, but its id and its \<open>analyzed_at\<close> are those of the second
  write, where the claim has the row of the first write retained.
\<close>

theorem second_save_replaces_row:
  "save_sentiment_results (\<lambda>i. ''2024-11-03T09:00:00'')
     (save_sentiment_results (\<lambda>i. ''2024-11-02T09:00:00'')
        \<lparr>player_sentiments = [], last_id = 0\<rparr>
        [\<lparr>player_name = ''Jayson Tatum'', team = ''Boston Celtics'',
          context_text = ''Tatum played great'', sentiment_score = 1000 / 1001,
          sentiment_label = ''positive'', confidence = 5001 / 10000,
          indicators = [''played great''], video_id = ''v1'',
          coach_name = ''Joe Mazzulla'', date = ''2024-11-02''\<rparr>])
     [\<lparr>player_name = ''Jayson Tatum'', team = ''Boston Celtics'',
       context_text = ''Tatum played great'', sentiment_score = 1000 / 1001,
       sentiment_label = ''positive'', confidence = 5001 / 10000,
       indicators = [''played great''], video_id = ''v1'',
       coach_name = ''Joe Mazzulla'', date = ''2024-11-02''\<rparr>]
   = \<lparr>player_sentiments =
        [\<lparr>row_id = 2,
          stored = \<lparr>player_name = ''Jayson Tatum'', team = ''Boston Celtics'',
                    context_text = ''Tatum played great'', sentiment_score = 1000 / 1001,
                    sentiment_label = ''positive'', confidence = 5001 / 10000,
                    indicators = [''played great''], video_id = ''v1'',
                    coach_name = ''Joe Mazzulla'', date = ''2024-11-02''\<rparr>,
          analyzed_at = ''2024-11-03T09:00:00''\<rparr>],
      last_id = 2\<rparr>"
  by (simp add: insert_or_replace_def unique_key_def)

section \<open>Properties of the trend computation\<close>

subsection \<open>The query returns the player's rows, latest date first\<close>

lemma text_le_refl: "text_le s s"
  by (induction s) auto

lemma text_le_total: "text_le s t \<or> text_le t s"
proof (induction s t rule: text_le.induct)
  case (3 a as b bs)
  have "of_char a = (of_char b :: nat) \<Longrightarrow> a = b" by (metis char_of_char)
  with 3 show ?case by (cases "(of_char a :: nat) < of_char b") (auto simp: not_less le_less)
qed simp_all

lemma text_le_trans: "text_le s t \<Longrightarrow> text_le t u \<Longrightarrow> text_le s u"
proof (induction s t arbitrary: u rule: text_le.induct)
  case (1 t)
  then show ?case by simp
next
  case (2 a as)
  then show ?case by simp
next
  case (3 a as b bs)
  then show ?case by (cases u) auto
qed

lemma set_insert_by_date: "set (insert_by_date r xs) = insert r (set xs)"
  by (induction xs) auto


lemma sorted_insert_by_date:
  assumes "sorted_wrt (\<lambda>a b. text_le (date (stored b)) (date (stored a))) xs"
  shows "sorted_wrt (\<lambda>a b. text_le (date (stored b)) (date (stored a))) (insert_by_date r xs)"
  using assms
proof (induction xs)
  case Nil
  then show ?case by simp
next
  case (Cons x xs)
  show ?case
  proof (cases "text_le (date (stored x)) (date (stored r))")
    case True
    with Cons.prems show ?thesis by (auto intro: text_le_trans)
  next
    case False
    then have "text_le (date (stored r)) (date (stored x))" using text_le_total by blast
    with False Cons show ?thesis by (auto simp: set_insert_by_date)
  qed
qed


lemma set_order_by_date_desc: "set (order_by_date_desc rs) = set rs"
  by (induction rs) (simp_all add: order_by_date_desc_def set_insert_by_date)

lemma sorted_order_by_date_desc:
  "sorted_wrt (\<lambda>a b. text_le (date (stored b)) (date (stored a))) (order_by_date_desc rs)"
  by (induction rs) (simp_all add: order_by_date_desc_def sorted_insert_by_date)






subsection \<open>Recent and older scores\<close>



end
